theory Spec2Isabelle
  imports Main "HOL-Library.Word"
begin

unbundle bit_operations_syntax

section \<open>The i.MX GPT driver (drivers/mxc/gpt/imx-gpt.c)\<close>

text \<open>
  The driver programs one memory-mapped timer block through \<open>readl_relaxed\<close> and
  \<open>writel_relaxed\<close>. A \<open>u32\<close> is a 32-bit word; a pointer (\<open>void __iomem *\<close>,
  \<open>struct clk *\<close>) is a 64-bit word, the driver being bound to arm64 SoCs.
\<close>

type_synonym u32 = "32 word"
type_synonym addr = "64 word"

subsection \<open>Register offsets and bit masks\<close>

definition V2_REG_CR :: u32 where "V2_REG_CR = 0x00"
definition V2_REG_PR :: u32 where "V2_REG_PR = 0x04"
definition V2_REG_SR :: u32 where "V2_REG_SR = 0x08"
definition V2_REG_IR :: u32 where "V2_REG_IR = 0x0c"
definition V2_REG_OCR1 :: u32 where "V2_REG_OCR1 = 0x10"
definition V2_REG_OCR2 :: u32 where "V2_REG_OCR2 = 0x14"
definition V2_REG_OCR3 :: u32 where "V2_REG_OCR3 = 0x18"

definition V2_CR_EN :: u32 where "V2_CR_EN = push_bit 0 1"
definition V2_CR_WAITEN :: u32 where "V2_CR_WAITEN = push_bit 3 1"
definition V2_CR_CLKSRC_IPG_CLK_24M :: u32 where "V2_CR_CLKSRC_IPG_CLK_24M = push_bit 6 5"
definition V2_CR_EN_24M :: u32 where "V2_CR_EN_24M = push_bit 10 1"

definition V2_IM_MODE_BOTH :: u32 where "V2_IM_MODE_BOTH = 3"
definition V2_IM1_MODE_OFFSET :: u32 where "V2_IM1_MODE_OFFSET = 16"
definition V2_IM2_MODE_OFFSET :: u32 where "V2_IM2_MODE_OFFSET = 18"

definition V2_PR_PRE24M_DIV_3 :: u32 where "V2_PR_PRE24M_DIV_3 = push_bit 12 2"
definition V2_PR_PRE24M_DIV_8 :: u32 where "V2_PR_PRE24M_DIV_8 = push_bit 12 7"

definition V2_SR_OF1 :: u32 where "V2_SR_OF1 = push_bit 0 1"
definition V2_SR_OF2 :: u32 where "V2_SR_OF2 = push_bit 1 1"
definition V2_SR_OF3 :: u32 where "V2_SR_OF3 = push_bit 2 1"
definition V2_SR_ROV :: u32 where "V2_SR_ROV = push_bit 5 1"

definition V2_IR_OF1IE :: u32 where "V2_IR_OF1IE = push_bit 0 1"
definition V2_IR_OF2IE :: u32 where "V2_IR_OF2IE = push_bit 1 1"
definition V2_IR_OF3IE :: u32 where "V2_IR_OF3IE = push_bit 2 1"
definition V2_IR_IF1IE :: u32 where "V2_IR_IF1IE = push_bit 3 1"
definition V2_IR_IF2IE :: u32 where "V2_IR_IF2IE = push_bit 4 1"

definition V2_OM_NUM :: u32 where "V2_OM_NUM = 3"
definition V2_IM_NUM :: u32 where "V2_IM_NUM = 2"

definition V2_TIMER_RATE_OSC_DIV8 :: "64 word" where "V2_TIMER_RATE_OSC_DIV8 = 3000000"

subsection \<open>The machine: register contents, access trace, driver statics, resources\<close>

text \<open>
  Every register access is recorded in \<open>log\<close>, oldest first, so that "performs no
  register access" and "writes this value there" are statements about the trace. The
  register block is modelled as storage cells: a read returns what was last written.
  \<open>clk_rate\<close> is what \<open>clk_get_rate\<close> answers for a clock handle. \<open>initialized\<close> is the
  function-static latch of \<open>gpt_probe\<close>. \<open>held\<close> is the ledger of resources the probe
  has acquired from the kernel and not given back.
\<close>

datatype access = Read addr | Write addr u32

datatype resource =
    Kmem addr
  | Iomap addr
  | IrqMapping u32
  | ClkRef addr
  | ClkEnabled addr

record machine =
  mem :: "addr \<Rightarrow> u32"
  log :: "access list"
  clk_rate :: "addr \<Rightarrow> 64 word"
  initialized :: int
  held :: "resource list"

text \<open>
  \<open>struct imx_timer\<close>. Its fields \<open>np\<close>, \<open>gpt\<close> and \<open>type\<close> are never read by the
  functions modelled here (\<open>gpt\<close> and \<open>type\<close> are never assigned either) and are left out.
\<close>

record imx_timer =
  irq :: u32
  clk_per :: addr
  clk_ipg :: addr
  base :: addr

datatype fault = NullPointer | OutOfBounds

definition readl_relaxed :: "addr \<Rightarrow> machine \<Rightarrow> u32 \<times> machine" where
  "readl_relaxed a s = (mem s a, s\<lparr>log := log s @ [Read a]\<rparr>)"

definition writel_relaxed :: "u32 \<Rightarrow> addr \<Rightarrow> machine \<Rightarrow> machine" where
  "writel_relaxed v a s = s\<lparr>mem := (mem s)(a := v), log := log s @ [Write a v]\<rparr>"

text \<open>\<open>imxtm->base + OFFSET\<close>: pointer plus a 32-bit unsigned offset.\<close>

definition reg :: "addr \<Rightarrow> u32 \<Rightarrow> addr" where
  "reg b off = b + ucast off"

text \<open>C's logical negation \<open>!x\<close>: 1 when \<open>x\<close> is zero, 0 otherwise.\<close>

definition lnot :: "u32 \<Rightarrow> u32" where
  "lnot x = (if x = 0 then 1 else 0)"

text \<open>Reading a local array at an index: out of range is a fault of the model.\<close>

definition at_index :: "'a list \<Rightarrow> u32 \<Rightarrow> fault + 'a" where
  "at_index xs i = (if unat i < length xs then Inr (xs ! unat i) else Inl OutOfBounds)"

subsection \<open>Timer control operations\<close>

definition v2_gpt_setup_tctl :: "imx_timer \<Rightarrow> machine \<Rightarrow> machine" where
  "v2_gpt_setup_tctl imxtm s =
    (let s1 = writel_relaxed 0 (reg (base imxtm) V2_REG_CR) s;
         s2 = writel_relaxed 0 (reg (base imxtm) V2_REG_PR) s1;
         cr_val = V2_CR_WAITEN;
         (cr_val, pr_val) =
           (if clk_rate s2 (clk_per imxtm) = V2_TIMER_RATE_OSC_DIV8
            then (cr_val OR V2_CR_EN_24M OR V2_CR_CLKSRC_IPG_CLK_24M, V2_PR_PRE24M_DIV_8)
            else (cr_val OR V2_CR_EN_24M OR V2_CR_CLKSRC_IPG_CLK_24M, V2_PR_PRE24M_DIV_3));
         s3 = writel_relaxed cr_val (reg (base imxtm) V2_REG_CR) s2
     in writel_relaxed pr_val (reg (base imxtm) V2_REG_PR) s3)"

definition v2_gpt_enable :: "imx_timer \<Rightarrow> machine \<Rightarrow> machine" where
  "v2_gpt_enable imxtm s =
    (let (cr_val, s1) = readl_relaxed (reg (base imxtm) V2_REG_CR) s;
         cr_val = cr_val OR V2_CR_EN
     in writel_relaxed cr_val (reg (base imxtm) V2_REG_CR) s1)"

definition v2_gpt_disable :: "imx_timer \<Rightarrow> machine \<Rightarrow> machine" where
  "v2_gpt_disable imxtm s =
    (let (cr_val, s1) = readl_relaxed (reg (base imxtm) V2_REG_CR) s;
         cr_val = cr_val AND lnot V2_CR_EN
     in writel_relaxed cr_val (reg (base imxtm) V2_REG_CR) s1)"

definition v2_gpt_irq_acknowledge :: "imx_timer \<Rightarrow> machine \<Rightarrow> machine" where
  "v2_gpt_irq_acknowledge imxtm s = writel_relaxed V2_SR_ROV (reg (base imxtm) V2_REG_SR) s"

definition v2_gpt_is_rollover :: "imx_timer \<Rightarrow> machine \<Rightarrow> bool \<times> machine" where
  "v2_gpt_is_rollover imxtm s =
    (let (sr_val, s1) = readl_relaxed (reg (base imxtm) V2_REG_SR) s
     in (sr_val AND V2_SR_ROV \<noteq> 0, s1))"

subsection \<open>Output-compare channel operations\<close>

definition v2_gpt_oc_setup :: "imx_timer \<Rightarrow> u32 \<Rightarrow> u32 \<Rightarrow> machine \<Rightarrow> fault + machine" where
  "v2_gpt_oc_setup imxtm chan oc_val s =
    (let ocr = [V2_REG_OCR1, V2_REG_OCR2, V2_REG_OCR3] in
     if chan > V2_OM_NUM \<or> chan = 0 then Inr s
     else case at_index ocr (chan - 1) of
            Inl e \<Rightarrow> Inl e
          | Inr off \<Rightarrow> Inr (writel_relaxed oc_val (reg (base imxtm) off) s))"

text \<open>
  The four interrupt-enable operations run between \<open>spin_lock_irqsave\<close> and
  \<open>spin_unlock_irqrestore\<close> on \<open>icap_lock\<close>; in this sequential model the lock has
  no effect on the machine and is not represented.
\<close>

definition v2_gpt_oc_irq_enable :: "imx_timer \<Rightarrow> u32 \<Rightarrow> machine \<Rightarrow> fault + machine" where
  "v2_gpt_oc_irq_enable imxtm chan s =
    (let mask = [V2_IR_OF1IE, V2_IR_OF2IE, V2_IR_OF3IE] in
     if chan > V2_OM_NUM \<or> chan = 0 then Inr s
     else let (ir_val, s1) = readl_relaxed (reg (base imxtm) V2_REG_IR) s in
          case at_index mask (chan - 1) of
            Inl e \<Rightarrow> Inl e
          | Inr m \<Rightarrow> Inr (writel_relaxed (ir_val OR m) (reg (base imxtm) V2_REG_IR) s1))"

definition v2_gpt_oc_irq_disable :: "imx_timer \<Rightarrow> u32 \<Rightarrow> machine \<Rightarrow> fault + machine" where
  "v2_gpt_oc_irq_disable imxtm chan s =
    (let mask = [lnot V2_IR_OF1IE, lnot V2_IR_OF2IE, lnot V2_IR_OF3IE] in
     if chan > 3 \<or> chan = 0 then Inr s
     else let (ir_val, s1) = readl_relaxed (reg (base imxtm) V2_REG_IR) s in
          case at_index mask (chan - 1) of
            Inl e \<Rightarrow> Inl e
          | Inr m \<Rightarrow> Inr (writel_relaxed (ir_val AND m) (reg (base imxtm) V2_REG_IR) s1))"

definition v2_gpt_oc_irq_acknowledge :: "imx_timer \<Rightarrow> u32 \<Rightarrow> machine \<Rightarrow> fault + machine" where
  "v2_gpt_oc_irq_acknowledge imxtm chan s =
    (let mask = [V2_SR_OF1, V2_SR_OF2, V2_SR_OF3] in
     if chan > V2_IM_NUM \<or> chan = 0 then Inr s
     else case at_index mask (chan - 1) of
            Inl e \<Rightarrow> Inl e
          | Inr m \<Rightarrow> Inr (writel_relaxed m (reg (base imxtm) V2_REG_SR) s))"

definition v2_gpt_is_oc_irq :: "imx_timer \<Rightarrow> u32 \<Rightarrow> machine \<Rightarrow> fault + bool \<times> machine" where
  "v2_gpt_is_oc_irq imxtm chan s =
    (let mask = [V2_SR_OF1, V2_SR_OF2, V2_SR_OF3] in
     if chan > V2_OM_NUM \<or> chan = 0 then Inr (False, s)
     else let (sr_val, s1) = readl_relaxed (reg (base imxtm) V2_REG_SR) s in
          case at_index mask (chan - 1) of
            Inl e \<Rightarrow> Inl e
          | Inr m \<Rightarrow> Inr (sr_val AND m \<noteq> 0, s1))"

subsection \<open>Input-capture channel operations\<close>

definition v2_gpt_ic_setup :: "imx_timer \<Rightarrow> u32 \<Rightarrow> u32 \<Rightarrow> machine \<Rightarrow> fault + machine" where
  "v2_gpt_ic_setup imxtm chan mode s =
    (let offset = [V2_IM1_MODE_OFFSET, V2_IM2_MODE_OFFSET] in
     if chan > V2_IM_NUM \<or> chan = 0 \<or> mode > V2_IM_MODE_BOTH then Inr s
     else let (cr_val, s1) = readl_relaxed (reg (base imxtm) V2_REG_CR) s in
          case at_index offset (chan - 1) of
            Inl e \<Rightarrow> Inl e
          | Inr off \<Rightarrow>
              Inr (writel_relaxed (cr_val OR push_bit (unat off) mode) (reg (base imxtm) V2_REG_CR) s1))"

definition v2_gpt_ic_irq_enable :: "imx_timer \<Rightarrow> u32 \<Rightarrow> machine \<Rightarrow> fault + machine" where
  "v2_gpt_ic_irq_enable imxtm chan s =
    (let ir_mask = [V2_IR_IF1IE, V2_IR_IF2IE] in
     if chan > V2_IM_NUM \<or> chan = 0 then Inr s
     else let (ir_val, s1) = readl_relaxed (reg (base imxtm) V2_REG_IR) s in
          case at_index ir_mask (chan - 1) of
            Inl e \<Rightarrow> Inl e
          | Inr m \<Rightarrow> Inr (writel_relaxed (ir_val OR m) (reg (base imxtm) V2_REG_IR) s1))"

definition v2_gpt_ic_irq_disable :: "imx_timer \<Rightarrow> u32 \<Rightarrow> machine \<Rightarrow> fault + machine" where
  "v2_gpt_ic_irq_disable imxtm chan s =
    (let ir_mask = [lnot V2_IR_IF1IE, lnot V2_IR_IF2IE] in
     if chan > V2_IM_NUM \<or> chan = 0 then Inr s
     else let (ir_val, s1) = readl_relaxed (reg (base imxtm) V2_REG_IR) s in
          case at_index ir_mask (chan - 1) of
            Inl e \<Rightarrow> Inl e
          | Inr m \<Rightarrow> Inr (writel_relaxed (ir_val AND m) (reg (base imxtm) V2_REG_IR) s1))"

definition v2_gpt_ic_irq_acknowledge :: "imx_timer \<Rightarrow> u32 \<Rightarrow> machine \<Rightarrow> fault + machine" where
  "v2_gpt_ic_irq_acknowledge imxtm chan s =
    (let ir_mask = [V2_IR_IF1IE, V2_IR_IF2IE] in
     if chan > V2_IM_NUM \<or> chan = 0 then Inr s
     else case at_index ir_mask (chan - 1) of
            Inl e \<Rightarrow> Inl e
          | Inr m \<Rightarrow> Inr (writel_relaxed m (reg (base imxtm) V2_REG_SR) s))"

definition v2_gpt_is_ic_irq :: "imx_timer \<Rightarrow> u32 \<Rightarrow> machine \<Rightarrow> fault + bool \<times> machine" where
  "v2_gpt_is_ic_irq imxtm chan s =
    (let mask = [V2_IR_IF1IE, V2_IR_IF2IE] in
     if chan > V2_IM_NUM \<or> chan = 0 then Inr (False, s)
     else let (sr_val, s1) = readl_relaxed (reg (base imxtm) V2_REG_SR) s in
          case at_index mask (chan - 1) of
            Inl e \<Rightarrow> Inl e
          | Inr m \<Rightarrow> Inr (sr_val AND m \<noteq> 0, s1))"

subsection \<open>The variant dispatch table\<close>

text \<open>
  \<open>struct imx_gpt_data\<close>: a table of function pointers. A null pointer is \<open>None\<close>;
  calling through it is the fault \<open>NullPointer\<close>.
\<close>

record imx_gpt_data =
  gpt_setup_tctl :: "(imx_timer \<Rightarrow> machine \<Rightarrow> machine) option"
  gpt_enable :: "(imx_timer \<Rightarrow> machine \<Rightarrow> machine) option"
  gpt_disable :: "(imx_timer \<Rightarrow> machine \<Rightarrow> machine) option"
  gpt_irq_acknowledge :: "(imx_timer \<Rightarrow> machine \<Rightarrow> machine) option"
  gpt_is_rollover :: "(imx_timer \<Rightarrow> machine \<Rightarrow> bool \<times> machine) option"
  gpt_oc_setup :: "(imx_timer \<Rightarrow> u32 \<Rightarrow> u32 \<Rightarrow> machine \<Rightarrow> fault + machine) option"
  gpt_oc_irq_enable :: "(imx_timer \<Rightarrow> u32 \<Rightarrow> machine \<Rightarrow> fault + machine) option"
  gpt_oc_irq_disable :: "(imx_timer \<Rightarrow> u32 \<Rightarrow> machine \<Rightarrow> fault + machine) option"
  gpt_oc_irq_acknowledge :: "(imx_timer \<Rightarrow> u32 \<Rightarrow> machine \<Rightarrow> fault + machine) option"
  gpt_is_oc_irq :: "(imx_timer \<Rightarrow> u32 \<Rightarrow> machine \<Rightarrow> fault + bool \<times> machine) option"
  gpt_ic_setup :: "(imx_timer \<Rightarrow> u32 \<Rightarrow> u32 \<Rightarrow> machine \<Rightarrow> fault + machine) option"
  gpt_ic_irq_enable :: "(imx_timer \<Rightarrow> u32 \<Rightarrow> machine \<Rightarrow> fault + machine) option"
  gpt_ic_irq_disable :: "(imx_timer \<Rightarrow> u32 \<Rightarrow> machine \<Rightarrow> fault + machine) option"
  gpt_ic_irq_acknowledge :: "(imx_timer \<Rightarrow> u32 \<Rightarrow> machine \<Rightarrow> fault + machine) option"
  gpt_is_ic_irq :: "(imx_timer \<Rightarrow> u32 \<Rightarrow> machine \<Rightarrow> fault + bool \<times> machine) option"

text \<open>A statically allocated table starts with every member zero, that is, null.\<close>

definition zeroed_gpt_data :: imx_gpt_data where
  "zeroed_gpt_data =
    \<lparr>gpt_setup_tctl = None, gpt_enable = None, gpt_disable = None,
     gpt_irq_acknowledge = None, gpt_is_rollover = None,
     gpt_oc_setup = None, gpt_oc_irq_enable = None, gpt_oc_irq_disable = None,
     gpt_oc_irq_acknowledge = None, gpt_is_oc_irq = None,
     gpt_ic_setup = None, gpt_ic_irq_enable = None, gpt_ic_irq_disable = None,
     gpt_ic_irq_acknowledge = None, gpt_is_ic_irq = None\<rparr>"

text \<open>
  The designated initialisers of \<open>v2_gpt_data\<close>, applied in the order the source writes
  them: a member named twice keeps the later value, a member never named stays null.
\<close>

definition v2_gpt_data :: imx_gpt_data where
  "v2_gpt_data = zeroed_gpt_data
    \<lparr>gpt_setup_tctl := Some v2_gpt_setup_tctl,
     gpt_enable := Some v2_gpt_enable,
     gpt_disable := Some v2_gpt_disable,
     gpt_irq_acknowledge := Some v2_gpt_irq_acknowledge,
     gpt_is_rollover := Some v2_gpt_is_rollover,
     gpt_oc_setup := Some v2_gpt_oc_setup,
     gpt_oc_irq_enable := Some v2_gpt_oc_irq_enable,
     gpt_oc_irq_disable := Some v2_gpt_oc_irq_disable,
     gpt_oc_irq_acknowledge := Some v2_gpt_oc_irq_acknowledge,
     gpt_ic_setup := Some v2_gpt_ic_setup,
     gpt_is_ic_irq := Some v2_gpt_is_oc_irq,
     gpt_ic_irq_enable := Some v2_gpt_ic_irq_enable,
     gpt_ic_irq_disable := Some v2_gpt_ic_irq_disable,
     gpt_ic_irq_acknowledge := Some v2_gpt_ic_irq_acknowledge,
     gpt_is_ic_irq := Some v2_gpt_is_ic_irq\<rparr>"

definition gpt_of_match :: "(string \<times> imx_gpt_data) list" where
  "gpt_of_match =
    [(''fsl,imx8mn-gpt'', v2_gpt_data),
     (''fsl,imx8mm-gpt'', v2_gpt_data),
     (''fsl,imx8mp-gpt'', v2_gpt_data)]"

subsection \<open>Kernel services the probe consumes\<close>

text \<open>
  The platform device is known by its compatible string. What the kernel answers to the
  probe's requests is an input of the model: the pointer \<open>kzalloc\<close> returns (0 is
  \<open>NULL\<close>), the mapping \<open>of_iomap\<close> returns (0 is \<open>NULL\<close>), the number
  \<open>irq_of_parse_and_map\<close> returns (0 is "no interrupt"), the pointer
  \<open>of_clk_get_by_name\<close> returns for a clock name (a handle, or an errno encoded as
  \<open>ERR_PTR\<close>), and the status of \<open>clk_prepare_enable\<close>.
\<close>

record platform_device =
  compatible :: string

record services =
  kzalloc_ret :: addr
  of_iomap_ret :: addr
  irq_of_parse_and_map_ret :: u32
  of_clk_get_by_name_ret :: "string \<Rightarrow> addr"
  clk_prepare_enable_ret :: "addr \<Rightarrow> int"

text \<open>Errno values and the error-pointer encoding of linux/err.h (\<open>MAX_ERRNO\<close> is 4095).\<close>

definition ENXIO :: int where "ENXIO = 6"
definition ENOMEM :: int where "ENOMEM = 12"
definition EINVAL :: int where "EINVAL = 22"

definition IS_ERR :: "addr \<Rightarrow> bool" where
  "IS_ERR p = (p \<ge> - 4095)"

text \<open>\<open>PTR_ERR\<close> yields the pointer as a \<open>long\<close>; returned as \<open>int\<close> it keeps the low 32 bits.\<close>

definition PTR_ERR :: "addr \<Rightarrow> int" where
  "PTR_ERR p = sint (ucast p :: u32)"

text \<open>
  The ledger: a request that succeeds adds its resource to \<open>held\<close>, and \<open>kfree\<close> takes
  the allocation off again. The driver calls no other releasing service (\<open>iounmap\<close>,
  \<open>irq_dispose_mapping\<close>, \<open>clk_put\<close>), so none is modelled.
\<close>

definition acquire :: "resource \<Rightarrow> machine \<Rightarrow> machine" where
  "acquire r s = s\<lparr>held := r # held s\<rparr>"

definition release :: "resource \<Rightarrow> machine \<Rightarrow> machine" where
  "release r s = s\<lparr>held := remove1 r (held s)\<rparr>"

definition kzalloc :: "services \<Rightarrow> machine \<Rightarrow> addr \<times> machine" where
  "kzalloc env s =
    (let p = kzalloc_ret env in (p, if p = 0 then s else acquire (Kmem p) s))"

definition kfree :: "addr \<Rightarrow> machine \<Rightarrow> machine" where
  "kfree p s = release (Kmem p) s"

definition of_iomap :: "services \<Rightarrow> machine \<Rightarrow> addr \<times> machine" where
  "of_iomap env s =
    (let b = of_iomap_ret env in (b, if b = 0 then s else acquire (Iomap b) s))"

definition irq_of_parse_and_map :: "services \<Rightarrow> machine \<Rightarrow> u32 \<times> machine" where
  "irq_of_parse_and_map env s =
    (let v = irq_of_parse_and_map_ret env in (v, if v = 0 then s else acquire (IrqMapping v) s))"

definition of_clk_get_by_name :: "services \<Rightarrow> string \<Rightarrow> machine \<Rightarrow> addr \<times> machine" where
  "of_clk_get_by_name env name s =
    (let p = of_clk_get_by_name_ret env name in (p, if IS_ERR p then s else acquire (ClkRef p) s))"

definition clk_prepare_enable :: "services \<Rightarrow> addr \<Rightarrow> machine \<Rightarrow> machine" where
  "clk_prepare_enable env p s =
    (if clk_prepare_enable_ret env p = 0 then acquire (ClkEnabled p) s else s)"

definition of_device_get_match_data :: "platform_device \<Rightarrow> imx_gpt_data option" where
  "of_device_get_match_data pdev = map_of gpt_of_match (compatible pdev)"

subsection \<open>The initialisation sequencer and the probe\<close>

definition call_ptr :: "'f option \<Rightarrow> ('f \<Rightarrow> fault + 'a) \<Rightarrow> fault + 'a" where
  "call_ptr p k = (case p of None \<Rightarrow> Inl NullPointer | Some f \<Rightarrow> k f)"

definition and_then :: "fault + 'a \<Rightarrow> ('a \<Rightarrow> fault + 'b) \<Rightarrow> fault + 'b" where
  "and_then r k = (case r of Inl e \<Rightarrow> Inl e | Inr x \<Rightarrow> k x)"

definition gpt_setup :: "imx_timer \<Rightarrow> platform_device \<Rightarrow> machine \<Rightarrow> fault + int \<times> machine" where
  "gpt_setup imxtm pdev s =
    call_ptr (of_device_get_match_data pdev) (\<lambda>gpt_data.
    call_ptr (gpt_setup_tctl gpt_data) (\<lambda>setup_tctl.
    let s1 = setup_tctl imxtm s in
    call_ptr (gpt_oc_setup gpt_data) (\<lambda>oc_setup.
    and_then (oc_setup imxtm 1 0xFFFFFFFF s1) (\<lambda>s2.
    call_ptr (gpt_ic_setup gpt_data) (\<lambda>ic_setup.
    and_then (ic_setup imxtm 1 V2_IM_MODE_BOTH s2) (\<lambda>s3.
    call_ptr (gpt_ic_irq_enable gpt_data) (\<lambda>ic_irq_enable.
    and_then (ic_irq_enable imxtm 1 s3) (\<lambda>s4.
    call_ptr (gpt_enable gpt_data) (\<lambda>enable.
    Inr (0, enable imxtm s4))))))))))"

definition zeroed_imx_timer :: imx_timer where
  "zeroed_imx_timer = \<lparr>irq = 0, clk_per = 0, clk_ipg = 0, base = 0\<rparr>"

definition gpt_probe :: "services \<Rightarrow> platform_device \<Rightarrow> machine \<Rightarrow> fault + int \<times> machine" where
  "gpt_probe env pdev s =
    (if initialized s \<noteq> 0 then Inr (0, s)
     else
       let (p, s) = kzalloc env s in
       if p = 0 then Inr (- ENOMEM, s)
       else
         let imxtm = zeroed_imx_timer;
             (b, s) = of_iomap env s;
             imxtm = imxtm\<lparr>base := b\<rparr>
         in
         if base imxtm = 0 then Inr (- ENXIO, kfree p s)
         else
           let (v, s) = irq_of_parse_and_map env s;
               imxtm = imxtm\<lparr>irq := v\<rparr>
           in
           if sint (irq imxtm) \<le> 0 then Inr (- EINVAL, kfree p s)
           else
             let (c, s) = of_clk_get_by_name env ''ipg'' s;
                 imxtm = imxtm\<lparr>clk_ipg := c\<rparr>;
                 (c, s) = of_clk_get_by_name env ''osc_per'' s;
                 imxtm = imxtm\<lparr>clk_per := c\<rparr>;
                 (imxtm, s) =
                   (if IS_ERR (clk_per imxtm)
                    then let (c, s) = of_clk_get_by_name env ''per'' s
                         in (imxtm\<lparr>clk_per := c\<rparr>, s)
                    else (imxtm, s))
             in
             if IS_ERR (clk_per imxtm) \<or> IS_ERR (clk_ipg imxtm)
             then Inr (PTR_ERR (clk_per imxtm), s)
             else
               let s = clk_prepare_enable env (clk_ipg imxtm) s;
                   s = clk_prepare_enable env (clk_per imxtm) s
               in
               and_then (gpt_setup imxtm pdev s) (\<lambda>(ret, s).
                 if ret \<noteq> 0 then Inr (ret, s)
                 else Inr (0, s\<lparr>initialized := 1\<rparr>)))"

subsection \<open>Concrete devices and machines used to run the model\<close>

definition demo_timer :: imx_timer where
  "demo_timer =
    \<lparr>irq = 55, clk_per = 0xffff000008002000, clk_ipg = 0xffff000008001000,
     base = 0xffff800010000000\<rparr>"

definition boot_machine :: machine where
  "boot_machine =
    \<lparr>mem = (\<lambda>_. 0), log = [], clk_rate = (\<lambda>_. 24000000), initialized = 0, held = []\<rparr>"

text \<open>The same machine with the peripheral clock running at 3 MHz.\<close>

definition osc_machine :: machine where
  "osc_machine = boot_machine\<lparr>clk_rate := (\<lambda>_. 3000000)\<rparr>"

text \<open>A machine whose register at address \<open>a\<close> holds \<open>v\<close>.\<close>

definition machine_with :: "addr \<Rightarrow> u32 \<Rightarrow> machine" where
  "machine_with a v = boot_machine\<lparr>mem := (mem boot_machine)(a := v)\<rparr>"

definition demo_pdev :: platform_device where
  "demo_pdev = \<lparr>compatible = ''fsl,imx8mm-gpt''\<rparr>"

text \<open>
  Every request succeeds, except that the device tree names no \<open>osc_per\<close> clock
  (\<open>ERR_PTR(-ENOENT)\<close>), so the probe falls back to \<open>per\<close>.
\<close>

definition demo_env :: services where
  "demo_env =
    \<lparr>kzalloc_ret = 0xffff000008000000,
     of_iomap_ret = 0xffff800010000000,
     irq_of_parse_and_map_ret = 55,
     of_clk_get_by_name_ret =
       (\<lambda>name. if name = ''ipg'' then 0xffff000008001000
               else if name = ''per'' then 0xffff000008002000
               else - 2),
     clk_prepare_enable_ret = (\<lambda>_. 0)\<rparr>"

text \<open>The same platform with no clock at all, and with no interrupt line.\<close>

definition no_clk_env :: services where
  "no_clk_env = demo_env\<lparr>of_clk_get_by_name_ret := (\<lambda>_. - 2)\<rparr>"

definition no_irq_env :: services where
  "no_irq_env = demo_env\<lparr>irq_of_parse_and_map_ret := 0\<rparr>"

text \<open>The same platform where only the \<open>ipg\<close> clock is missing.\<close>

definition no_ipg_env :: services where
  "no_ipg_env =
    demo_env\<lparr>of_clk_get_by_name_ret :=
      (\<lambda>name. if name = ''per'' then 0xffff000008002000 else - 2)\<rparr>"

section \<open>Properties\<close>

subsection \<open>Shared facts\<close>

lemmas v2_reg_defs =
  V2_REG_CR_def V2_REG_PR_def V2_REG_SR_def V2_REG_IR_def
  V2_REG_OCR1_def V2_REG_OCR2_def V2_REG_OCR3_def

lemmas v2_bit_defs =
  V2_CR_EN_def V2_CR_WAITEN_def V2_CR_CLKSRC_IPG_CLK_24M_def V2_CR_EN_24M_def
  V2_IM_MODE_BOTH_def V2_IM1_MODE_OFFSET_def V2_IM2_MODE_OFFSET_def
  V2_PR_PRE24M_DIV_3_def V2_PR_PRE24M_DIV_8_def
  V2_SR_OF1_def V2_SR_OF2_def V2_SR_OF3_def V2_SR_ROV_def
  V2_IR_OF1IE_def V2_IR_OF2IE_def V2_IR_OF3IE_def V2_IR_IF1IE_def V2_IR_IF2IE_def
  V2_OM_NUM_def V2_IM_NUM_def V2_TIMER_RATE_OSC_DIV8_def

lemmas io_defs = readl_relaxed_def writel_relaxed_def

lemmas demo_defs =
  demo_timer_def boot_machine_def osc_machine_def machine_with_def demo_pdev_def
  demo_env_def no_clk_env_def no_irq_env_def no_ipg_env_def

lemma reg_eq_iff [simp]:
  "reg b x = reg b y \<longleftrightarrow> (ucast x :: addr) = ucast y"
  by (simp add: reg_def)

lemma matched_device_data:
  assumes "compatible pdev \<in> {''fsl,imx8mn-gpt'', ''fsl,imx8mm-gpt'', ''fsl,imx8mp-gpt''}"
  shows "of_device_get_match_data pdev = Some v2_gpt_data"
  using assms by (auto simp: of_device_get_match_data_def gpt_of_match_def)

lemma gpt_setup_v2_order:
  assumes "of_device_get_match_data pdev = Some v2_gpt_data"
  shows "gpt_setup imxtm pdev s =
    and_then (v2_gpt_oc_setup imxtm 1 0xFFFFFFFF (v2_gpt_setup_tctl imxtm s)) (\<lambda>s2.
    and_then (v2_gpt_ic_setup imxtm 1 3 s2) (\<lambda>s3.
    and_then (v2_gpt_ic_irq_enable imxtm 1 s3) (\<lambda>s4.
    Inr (0, v2_gpt_enable imxtm s4))))"
  using assms
  by (simp add: gpt_setup_def call_ptr_def v2_gpt_data_def zeroed_gpt_data_def V2_IM_MODE_BOTH_def)

lemma gpt_setup_v2_result:
  assumes "of_device_get_match_data pdev = Some v2_gpt_data"
  shows "\<exists>s'. gpt_setup imxtm pdev s = Inr (0, s')
    \<and> log s' = log s @
        [Write (reg (base imxtm) V2_REG_CR) 0, Write (reg (base imxtm) V2_REG_PR) 0,
         Write (reg (base imxtm) V2_REG_CR) 0x548,
         Write (reg (base imxtm) V2_REG_PR)
           (if clk_rate s (clk_per imxtm) = 3000000
            then V2_PR_PRE24M_DIV_8 else V2_PR_PRE24M_DIV_3),
         Write (reg (base imxtm) V2_REG_OCR1) 0xFFFFFFFF,
         Read (reg (base imxtm) V2_REG_CR), Write (reg (base imxtm) V2_REG_CR) 0x30548,
         Read (reg (base imxtm) V2_REG_IR),
         Write (reg (base imxtm) V2_REG_IR) (mem s (reg (base imxtm) V2_REG_IR) OR 8),
         Read (reg (base imxtm) V2_REG_CR), Write (reg (base imxtm) V2_REG_CR) 0x30549]
    \<and> mem s' (reg (base imxtm) V2_REG_CR) = 0x30549
    \<and> mem s' (reg (base imxtm) V2_REG_OCR1) = 0xFFFFFFFF
    \<and> mem s' (reg (base imxtm) V2_REG_IR) = mem s (reg (base imxtm) V2_REG_IR) OR 8"
  unfolding gpt_setup_v2_order [OF assms]
  by (simp add: and_then_def v2_gpt_setup_tctl_def v2_gpt_oc_setup_def v2_gpt_ic_setup_def
      v2_gpt_ic_irq_enable_def v2_gpt_enable_def io_defs Let_def at_index_def
      v2_bit_defs v2_reg_defs)

lemma gpt_probe_latched:
  assumes "initialized s \<noteq> 0"
  shows "gpt_probe env pdev s = Inr (0, s)"
  using assms by (simp add: gpt_probe_def)

text \<open>The machine the probe hands to the sequencer once every acquisition succeeded.\<close>

lemma gpt_probe_acquired:
  assumes "initialized s = 0"
    and "kzalloc_ret env \<noteq> 0"
    and "of_iomap_ret env \<noteq> 0"
    and "0 < sint (irq_of_parse_and_map_ret env)"
    and "\<not> IS_ERR (of_clk_get_by_name_ret env ''ipg'')"
    and "\<not> IS_ERR per"
    and "per = (if IS_ERR (of_clk_get_by_name_ret env ''osc_per'')
                then of_clk_get_by_name_ret env ''per''
                else of_clk_get_by_name_ret env ''osc_per'')"
  shows "gpt_probe env pdev s =
          and_then
            (gpt_setup
              \<lparr>irq = irq_of_parse_and_map_ret env, clk_per = per,
               clk_ipg = of_clk_get_by_name_ret env ''ipg'', base = of_iomap_ret env\<rparr>
              pdev
              (clk_prepare_enable env per
                (clk_prepare_enable env (of_clk_get_by_name_ret env ''ipg'')
                  (acquire (ClkRef per)
                    (acquire (ClkRef (of_clk_get_by_name_ret env ''ipg''))
                      (acquire (IrqMapping (irq_of_parse_and_map_ret env))
                        (acquire (Iomap (of_iomap_ret env))
                          (acquire (Kmem (kzalloc_ret env)) s))))))))
            (\<lambda>(ret, s). if ret \<noteq> 0 then Inr (ret, s) else Inr (0, s\<lparr>initialized := 1\<rparr>))"
proof -
  from assms(4) have irq_nz: "irq_of_parse_and_map_ret env \<noteq> 0" by auto
  from assms(4) have irq_pos: "\<not> sint (irq_of_parse_and_map_ret env) \<le> 0" by simp
  show ?thesis
  proof (cases "IS_ERR (of_clk_get_by_name_ret env ''osc_per'')")
    case True
    with assms irq_nz irq_pos show ?thesis
      by (simp add: gpt_probe_def kzalloc_def of_iomap_def irq_of_parse_and_map_def
          of_clk_get_by_name_def Let_def zeroed_imx_timer_def)
  next
    case False
    with assms irq_nz irq_pos show ?thesis
      by (simp add: gpt_probe_def kzalloc_def of_iomap_def irq_of_parse_and_map_def
          of_clk_get_by_name_def Let_def zeroed_imx_timer_def)
  qed
qed

lemma clk_prepare_enable_frame [simp]:
  "mem (clk_prepare_enable env p s) = mem s"
  "log (clk_prepare_enable env p s) = log s"
  "clk_rate (clk_prepare_enable env p s) = clk_rate s"
  by (simp_all add: clk_prepare_enable_def acquire_def)

lemma acquire_frame [simp]:
  "mem (acquire r s) = mem s"
  "log (acquire r s) = log s"
  "clk_rate (acquire r s) = clk_rate s"
  by (simp_all add: acquire_def)

subsection \<open>The probe and the sequencer\<close>

text \<open>
  C1. Take a machine whose latch is clear and a device whose compatible string is in the
  match table, and let every acquisition of the probe succeed (allocation, register
  mapping at \<open>b\<close>, interrupt line, the \<open>ipg\<close> clock, and the peripheral clock \<open>per\<close>
  found as \<open>osc_per\<close> or else as \<open>per\<close>). Then the sequencer is the five steps
  setup, oc_setup(1, 0xFFFFFFFF), ic_setup(1, Both), ic_irq_enable(1), enable composed in
  that order, the probe returns 0, and the register trace it appends is exactly the
  accesses of those steps in that order. Afterwards the run-enable bit of the control
  register is set, compare register 1 holds 0xFFFFFFFF, the mode field of input-capture
  channel 1 (bits 16 and 17 of the control register) is Both, and the interrupt-enable bit
  of input-capture channel 1 is set. From the resulting machine every further probe, for
  any device and any answers of the kernel, returns 0 and leaves the machine, and so the
  trace, as it is.
\<close>

theorem gpt_probe_runs_sequencer_once:
  assumes "initialized s = 0"
    and "compatible pdev \<in> {''fsl,imx8mn-gpt'', ''fsl,imx8mm-gpt'', ''fsl,imx8mp-gpt''}"
    and "kzalloc_ret env \<noteq> 0"
    and "of_iomap_ret env = b" and "b \<noteq> 0"
    and "0 < sint (irq_of_parse_and_map_ret env)"
    and "\<not> IS_ERR (of_clk_get_by_name_ret env ''ipg'')"
    and "per = (if IS_ERR (of_clk_get_by_name_ret env ''osc_per'')
                then of_clk_get_by_name_ret env ''per''
                else of_clk_get_by_name_ret env ''osc_per'')"
    and "\<not> IS_ERR per"
    and "pr = (if clk_rate s per = 3000000 then V2_PR_PRE24M_DIV_8 else V2_PR_PRE24M_DIV_3)"
  shows "(\<forall>imxtm s0. gpt_setup imxtm pdev s0 =
            and_then (v2_gpt_oc_setup imxtm 1 0xFFFFFFFF (v2_gpt_setup_tctl imxtm s0)) (\<lambda>s2.
            and_then (v2_gpt_ic_setup imxtm 1 3 s2) (\<lambda>s3.
            and_then (v2_gpt_ic_irq_enable imxtm 1 s3) (\<lambda>s4.
            Inr (0, v2_gpt_enable imxtm s4)))))
    \<and> (\<exists>s'. gpt_probe env pdev s = Inr (0, s')
      \<and> log s' = log s @
          [Write (reg b V2_REG_CR) 0, Write (reg b V2_REG_PR) 0,
           Write (reg b V2_REG_CR) 0x548, Write (reg b V2_REG_PR) pr,
           Write (reg b V2_REG_OCR1) 0xFFFFFFFF,
           Read (reg b V2_REG_CR), Write (reg b V2_REG_CR) 0x30548,
           Read (reg b V2_REG_IR),
           Write (reg b V2_REG_IR) (mem s (reg b V2_REG_IR) OR V2_IR_IF1IE),
           Read (reg b V2_REG_CR), Write (reg b V2_REG_CR) 0x30549]
      \<and> mem s' (reg b V2_REG_CR) AND V2_CR_EN = V2_CR_EN
      \<and> mem s' (reg b V2_REG_OCR1) = 0xFFFFFFFF
      \<and> drop_bit 16 (mem s' (reg b V2_REG_CR)) AND 3 = V2_IM_MODE_BOTH
      \<and> mem s' (reg b V2_REG_IR) AND V2_IR_IF1IE = V2_IR_IF1IE
      \<and> (\<forall>env' pdev'. gpt_probe env' pdev' s' = Inr (0, s')))"
proof (rule conjI)
  have data: "of_device_get_match_data pdev = Some v2_gpt_data"
    using assms(2) by (rule matched_device_data)
  show "\<forall>imxtm s0. gpt_setup imxtm pdev s0 =
            and_then (v2_gpt_oc_setup imxtm 1 0xFFFFFFFF (v2_gpt_setup_tctl imxtm s0)) (\<lambda>s2.
            and_then (v2_gpt_ic_setup imxtm 1 3 s2) (\<lambda>s3.
            and_then (v2_gpt_ic_irq_enable imxtm 1 s3) (\<lambda>s4.
            Inr (0, v2_gpt_enable imxtm s4))))"
    using gpt_setup_v2_order [OF data] by blast
  let ?imxtm = "\<lparr>irq = irq_of_parse_and_map_ret env, clk_per = per,
    clk_ipg = of_clk_get_by_name_ret env ''ipg'', base = b\<rparr>"
  let ?s0 = "clk_prepare_enable env per
      (clk_prepare_enable env (of_clk_get_by_name_ret env ''ipg'')
        (acquire (ClkRef per)
          (acquire (ClkRef (of_clk_get_by_name_ret env ''ipg''))
            (acquire (IrqMapping (irq_of_parse_and_map_ret env))
              (acquire (Iomap b) (acquire (Kmem (kzalloc_ret env)) s))))))"
  from gpt_setup_v2_result [OF data, of "?imxtm" "?s0"]
  obtain s1 where ran: "gpt_setup ?imxtm pdev ?s0 = Inr (0, s1)"
    and log1: "log s1 = log s @
          [Write (reg b V2_REG_CR) 0, Write (reg b V2_REG_PR) 0,
           Write (reg b V2_REG_CR) 0x548, Write (reg b V2_REG_PR) pr,
           Write (reg b V2_REG_OCR1) 0xFFFFFFFF,
           Read (reg b V2_REG_CR), Write (reg b V2_REG_CR) 0x30548,
           Read (reg b V2_REG_IR), Write (reg b V2_REG_IR) (mem s (reg b V2_REG_IR) OR 8),
           Read (reg b V2_REG_CR), Write (reg b V2_REG_CR) 0x30549]"
    and cr: "mem s1 (reg b V2_REG_CR) = 0x30549"
    and ocr: "mem s1 (reg b V2_REG_OCR1) = 0xFFFFFFFF"
    and ir: "mem s1 (reg b V2_REG_IR) = mem s (reg b V2_REG_IR) OR 8"
    using assms(10) by auto
  have probe: "gpt_probe env pdev s = Inr (0, s1\<lparr>initialized := 1\<rparr>)"
    using gpt_probe_acquired [of s env per pdev] assms ran
    by (simp add: and_then_def)
  have latch: "\<forall>env' pdev'. gpt_probe env' pdev' (s1\<lparr>initialized := 1\<rparr>)
      = Inr (0, s1\<lparr>initialized := 1\<rparr>)"
    by (simp add: gpt_probe_latched)
  have ir_bit: "(mem s (reg b V2_REG_IR) OR 8) AND 8 = 8"
    by (simp add: word_bw_comms)
  show "\<exists>s'. gpt_probe env pdev s = Inr (0, s')
      \<and> log s' = log s @
          [Write (reg b V2_REG_CR) 0, Write (reg b V2_REG_PR) 0,
           Write (reg b V2_REG_CR) 0x548, Write (reg b V2_REG_PR) pr,
           Write (reg b V2_REG_OCR1) 0xFFFFFFFF,
           Read (reg b V2_REG_CR), Write (reg b V2_REG_CR) 0x30548,
           Read (reg b V2_REG_IR),
           Write (reg b V2_REG_IR) (mem s (reg b V2_REG_IR) OR V2_IR_IF1IE),
           Read (reg b V2_REG_CR), Write (reg b V2_REG_CR) 0x30549]
      \<and> mem s' (reg b V2_REG_CR) AND V2_CR_EN = V2_CR_EN
      \<and> mem s' (reg b V2_REG_OCR1) = 0xFFFFFFFF
      \<and> drop_bit 16 (mem s' (reg b V2_REG_CR)) AND 3 = V2_IM_MODE_BOTH
      \<and> mem s' (reg b V2_REG_IR) AND V2_IR_IF1IE = V2_IR_IF1IE
      \<and> (\<forall>env' pdev'. gpt_probe env' pdev' s' = Inr (0, s'))"
    apply (rule exI [where x = "s1\<lparr>initialized := 1\<rparr>"])
    apply (intro conjI)
          apply (rule probe)
         apply (simp add: log1 V2_IR_IF1IE_def)
        apply (simp add: cr V2_CR_EN_def)
       apply (simp add: ocr)
      apply (simp add: cr V2_IM_MODE_BOTH_def)
     apply (simp add: ir ir_bit V2_IR_IF1IE_def)
    apply (rule latch)
    done
qed

theorem gpt_probe_runs_sequencer_once_witness:
  "\<exists>s'. gpt_probe demo_env demo_pdev boot_machine = Inr (0, s')
      \<and> log s' =
          [Write 0xffff800010000000 0, Write 0xffff800010000004 0,
           Write 0xffff800010000000 0x548, Write 0xffff800010000004 0x2000,
           Write 0xffff800010000010 0xFFFFFFFF,
           Read 0xffff800010000000, Write 0xffff800010000000 0x30548,
           Read 0xffff80001000000c, Write 0xffff80001000000c 8,
           Read 0xffff800010000000, Write 0xffff800010000000 0x30549]
      \<and> mem s' 0xffff800010000000 AND 1 = 1
      \<and> mem s' 0xffff800010000010 = 0xFFFFFFFF
      \<and> drop_bit 16 (mem s' 0xffff800010000000) AND 3 = 3
      \<and> mem s' 0xffff80001000000c AND 8 = 8
      \<and> gpt_probe no_clk_env demo_pdev s' = Inr (0, s')"
  using gpt_probe_runs_sequencer_once [of boot_machine demo_pdev demo_env
      "0xffff800010000000" "0xffff000008002000" "V2_PR_PRE24M_DIV_3"]
  by (auto simp add: demo_defs IS_ERR_def reg_def v2_reg_defs v2_bit_defs)

subsection \<open>Timer control\<close>

lemma v2_gpt_enable_sets_run_bit:
  "mem (v2_gpt_enable imxtm s) (reg (base imxtm) V2_REG_CR)
     = mem s (reg (base imxtm) V2_REG_CR) OR V2_CR_EN"
  by (simp add: v2_gpt_enable_def io_defs Let_def)

text \<open>
  C2, the disable half. Whatever the control register held, \<open>v2_gpt_disable\<close> writes 0
  to it: the mask \<open>!(u32)V2_CR_EN\<close> is the logical negation of a non-zero value, that
  is 0, so every bit is cleared and not the run-enable bit alone. On a control register
  holding 0x549 (the value the sequencer leaves, bar the capture mode) the result is 0,
  where clearing the run-enable bit alone gives 0x548.
\<close>

theorem v2_gpt_disable_clears_every_bit:
  "mem (v2_gpt_disable imxtm s) (reg (base imxtm) V2_REG_CR) = 0
   \<and> mem (v2_gpt_disable demo_timer (machine_with (reg (base demo_timer) V2_REG_CR) 0x549))
        (reg (base demo_timer) V2_REG_CR) \<noteq> 0x549 AND NOT V2_CR_EN"
  by (simp add: v2_gpt_disable_def io_defs Let_def V2_CR_EN_def lnot_def machine_with_def)

text \<open>
  C5. \<open>v2_gpt_setup_tctl\<close> makes exactly four register writes, in this order: 0 to the
  control register, 0 to the prescaler register, the control value (wait-enable, 24 MHz
  enable, 24 MHz clock source) to the control register, and to the prescaler register the
  divide-by-8 value when the peripheral clock rate is 3000000 and the divide-by-3 value
  for any other rate. The prescaler register then holds that value.
\<close>

theorem v2_gpt_setup_tctl_prescaler:
  "log (v2_gpt_setup_tctl imxtm s) = log s @
      [Write (reg (base imxtm) V2_REG_CR) 0,
       Write (reg (base imxtm) V2_REG_PR) 0,
       Write (reg (base imxtm) V2_REG_CR)
         (V2_CR_WAITEN OR V2_CR_EN_24M OR V2_CR_CLKSRC_IPG_CLK_24M),
       Write (reg (base imxtm) V2_REG_PR)
         (if clk_rate s (clk_per imxtm) = 3000000
          then V2_PR_PRE24M_DIV_8 else V2_PR_PRE24M_DIV_3)]
   \<and> mem (v2_gpt_setup_tctl imxtm s) (reg (base imxtm) V2_REG_PR) =
         (if clk_rate s (clk_per imxtm) = 3000000
          then V2_PR_PRE24M_DIV_8 else V2_PR_PRE24M_DIV_3)
   \<and> mem (v2_gpt_setup_tctl imxtm s) (reg (base imxtm) V2_REG_CR) =
         V2_CR_WAITEN OR V2_CR_EN_24M OR V2_CR_CLKSRC_IPG_CLK_24M"
  by (simp add: v2_gpt_setup_tctl_def io_defs Let_def V2_TIMER_RATE_OSC_DIV8_def v2_reg_defs)

theorem v2_gpt_setup_tctl_prescaler_witness:
  "log (v2_gpt_setup_tctl demo_timer osc_machine) =
      [Write 0xffff800010000000 0, Write 0xffff800010000004 0,
       Write 0xffff800010000000 0x548, Write 0xffff800010000004 0x7000]
   \<and> log (v2_gpt_setup_tctl demo_timer boot_machine) =
      [Write 0xffff800010000000 0, Write 0xffff800010000004 0,
       Write 0xffff800010000000 0x548, Write 0xffff800010000004 0x2000]"
  using v2_gpt_setup_tctl_prescaler [of demo_timer osc_machine]
    v2_gpt_setup_tctl_prescaler [of demo_timer boot_machine]
  by (simp add: demo_defs reg_def v2_reg_defs v2_bit_defs)

subsection \<open>The shared interrupt-enable register\<close>

lemma v2_gpt_irq_enable_sets_channel_bit:
  "(chan = 1 \<or> chan = 2 \<or> chan = 3 \<longrightarrow>
      (\<exists>s'. v2_gpt_oc_irq_enable imxtm chan s = Inr s' \<and>
         mem s' (reg (base imxtm) V2_REG_IR)
           = mem s (reg (base imxtm) V2_REG_IR) OR push_bit (unat chan - 1) 1))
   \<and> (chan = 1 \<or> chan = 2 \<longrightarrow>
      (\<exists>s'. v2_gpt_ic_irq_enable imxtm chan s = Inr s' \<and>
         mem s' (reg (base imxtm) V2_REG_IR)
           = mem s (reg (base imxtm) V2_REG_IR) OR push_bit (unat chan + 2) 1))"
  by (auto simp: v2_gpt_oc_irq_enable_def v2_gpt_ic_irq_enable_def io_defs Let_def
      at_index_def v2_bit_defs)

text \<open>
  C3, the disable half. For each valid channel, \<open>v2_gpt_oc_irq_disable\<close> and
  \<open>v2_gpt_ic_irq_disable\<close> leave the interrupt-enable register at 0 whatever it held:
  each mask \<open>!(u32)V2_IR_...IE\<close> is the logical negation of a non-zero value, that is
  0, so the bits of every other channel are cleared too. With output-compare channel 1
  and input-capture channel 1 both enabled (the register holds 9),
  \<open>v2_gpt_oc_irq_disable\<close> on channel 1 does not leave 8.
\<close>

theorem v2_gpt_irq_disable_clears_every_bit:
  "(\<exists>s'. v2_gpt_oc_irq_disable imxtm 1 s = Inr s' \<and> mem s' (reg (base imxtm) V2_REG_IR) = 0)
   \<and> (\<exists>s'. v2_gpt_oc_irq_disable imxtm 2 s = Inr s' \<and> mem s' (reg (base imxtm) V2_REG_IR) = 0)
   \<and> (\<exists>s'. v2_gpt_oc_irq_disable imxtm 3 s = Inr s' \<and> mem s' (reg (base imxtm) V2_REG_IR) = 0)
   \<and> (\<exists>s'. v2_gpt_ic_irq_disable imxtm 1 s = Inr s' \<and> mem s' (reg (base imxtm) V2_REG_IR) = 0)
   \<and> (\<exists>s'. v2_gpt_ic_irq_disable imxtm 2 s = Inr s' \<and> mem s' (reg (base imxtm) V2_REG_IR) = 0)
   \<and> (\<exists>s'. v2_gpt_oc_irq_disable demo_timer 1
              (machine_with (reg (base demo_timer) V2_REG_IR) 9) = Inr s'
          \<and> mem s' (reg (base demo_timer) V2_REG_IR) \<noteq> 9 AND NOT V2_IR_OF1IE)"
  by (simp add: v2_gpt_oc_irq_disable_def v2_gpt_ic_irq_disable_def io_defs Let_def
      at_index_def v2_bit_defs lnot_def machine_with_def)

subsection \<open>The dispatch table\<close>

lemma v2_gpt_data_other_members:
  "gpt_setup_tctl v2_gpt_data = Some v2_gpt_setup_tctl"
  "gpt_enable v2_gpt_data = Some v2_gpt_enable"
  "gpt_disable v2_gpt_data = Some v2_gpt_disable"
  "gpt_irq_acknowledge v2_gpt_data = Some v2_gpt_irq_acknowledge"
  "gpt_is_rollover v2_gpt_data = Some v2_gpt_is_rollover"
  "gpt_oc_setup v2_gpt_data = Some v2_gpt_oc_setup"
  "gpt_oc_irq_enable v2_gpt_data = Some v2_gpt_oc_irq_enable"
  "gpt_oc_irq_disable v2_gpt_data = Some v2_gpt_oc_irq_disable"
  "gpt_oc_irq_acknowledge v2_gpt_data = Some v2_gpt_oc_irq_acknowledge"
  "gpt_ic_setup v2_gpt_data = Some v2_gpt_ic_setup"
  "gpt_ic_irq_enable v2_gpt_data = Some v2_gpt_ic_irq_enable"
  "gpt_ic_irq_disable v2_gpt_data = Some v2_gpt_ic_irq_disable"
  "gpt_ic_irq_acknowledge v2_gpt_data = Some v2_gpt_ic_irq_acknowledge"
  by (simp_all add: v2_gpt_data_def zeroed_gpt_data_def)

text \<open>
  C4. The member \<open>gpt_is_oc_irq\<close> of \<open>v2_gpt_data\<close> is null: the initialiser that
  carries \<open>v2_gpt_is_oc_irq\<close> names the member \<open>gpt_is_ic_irq\<close>, which a later
  initialiser sets again to \<open>v2_gpt_is_ic_irq\<close>. A call of \<open>gpt_is_oc_irq\<close> through
  the table is a call through a null pointer.
\<close>

theorem v2_gpt_data_is_oc_irq_null:
  "gpt_is_oc_irq v2_gpt_data = None
   \<and> gpt_is_ic_irq v2_gpt_data = Some v2_gpt_is_ic_irq
   \<and> call_ptr (gpt_is_oc_irq v2_gpt_data) (\<lambda>f. f demo_timer 1 boot_machine) = Inl NullPointer"
  by (simp add: v2_gpt_data_def zeroed_gpt_data_def call_ptr_def)

subsection \<open>Channel validation\<close>

text \<open>
  C6. With a channel index that is 0 or above the channel count of its kind (3 for
  output compare, 2 for input capture), each of the ten channel operations returns
  normally with the machine unchanged, so with no register read or written; the two
  status queries answer false. The same holds for \<open>v2_gpt_ic_setup\<close> with a mode above
  3, whatever the channel.
\<close>

theorem invalid_channel_is_silent_noop:
  "(chan = 0 \<or> chan > 3 \<longrightarrow>
      v2_gpt_oc_setup imxtm chan v s = Inr s \<and>
      v2_gpt_oc_irq_enable imxtm chan s = Inr s \<and>
      v2_gpt_oc_irq_disable imxtm chan s = Inr s \<and>
      v2_gpt_oc_irq_acknowledge imxtm chan s = Inr s \<and>
      v2_gpt_is_oc_irq imxtm chan s = Inr (False, s))
   \<and> (chan = 0 \<or> chan > 2 \<longrightarrow>
      v2_gpt_ic_setup imxtm chan mode s = Inr s \<and>
      v2_gpt_ic_irq_enable imxtm chan s = Inr s \<and>
      v2_gpt_ic_irq_disable imxtm chan s = Inr s \<and>
      v2_gpt_ic_irq_acknowledge imxtm chan s = Inr s \<and>
      v2_gpt_is_ic_irq imxtm chan s = Inr (False, s))
   \<and> (mode > 3 \<longrightarrow> v2_gpt_ic_setup imxtm chan mode s = Inr s)"
proof (intro conjI impI)
  assume oc: "chan = 0 \<or> chan > 3"
  then have "chan > 2 \<or> chan = 0" by (auto intro: less_trans [of 2 3 chan])
  then show "v2_gpt_oc_irq_acknowledge imxtm chan s = Inr s"
    by (simp add: v2_gpt_oc_irq_acknowledge_def V2_IM_NUM_def)
  from oc show "v2_gpt_oc_setup imxtm chan v s = Inr s"
    by (auto simp: v2_gpt_oc_setup_def V2_OM_NUM_def)
  from oc show "v2_gpt_oc_irq_enable imxtm chan s = Inr s"
    by (auto simp: v2_gpt_oc_irq_enable_def V2_OM_NUM_def)
  from oc show "v2_gpt_oc_irq_disable imxtm chan s = Inr s"
    by (auto simp: v2_gpt_oc_irq_disable_def)
  from oc show "v2_gpt_is_oc_irq imxtm chan s = Inr (False, s)"
    by (auto simp: v2_gpt_is_oc_irq_def V2_OM_NUM_def)
next
  assume ic: "chan = 0 \<or> chan > 2"
  then show "v2_gpt_ic_setup imxtm chan mode s = Inr s"
    by (auto simp: v2_gpt_ic_setup_def V2_IM_NUM_def)
  from ic show "v2_gpt_ic_irq_enable imxtm chan s = Inr s"
    by (auto simp: v2_gpt_ic_irq_enable_def V2_IM_NUM_def)
  from ic show "v2_gpt_ic_irq_disable imxtm chan s = Inr s"
    by (auto simp: v2_gpt_ic_irq_disable_def V2_IM_NUM_def)
  from ic show "v2_gpt_ic_irq_acknowledge imxtm chan s = Inr s"
    by (auto simp: v2_gpt_ic_irq_acknowledge_def V2_IM_NUM_def)
  from ic show "v2_gpt_is_ic_irq imxtm chan s = Inr (False, s)"
    by (auto simp: v2_gpt_is_ic_irq_def V2_IM_NUM_def)
next
  assume "mode > 3"
  then show "v2_gpt_ic_setup imxtm chan mode s = Inr s"
    by (simp add: v2_gpt_ic_setup_def V2_IM_MODE_BOTH_def)
qed

theorem invalid_channel_is_silent_noop_witness:
  "v2_gpt_oc_setup demo_timer 4 7 boot_machine = Inr boot_machine
   \<and> v2_gpt_oc_irq_enable demo_timer 4 boot_machine = Inr boot_machine
   \<and> v2_gpt_oc_irq_disable demo_timer 0 boot_machine = Inr boot_machine
   \<and> v2_gpt_oc_irq_acknowledge demo_timer 0xFFFFFFFF boot_machine = Inr boot_machine
   \<and> v2_gpt_is_oc_irq demo_timer 4 boot_machine = Inr (False, boot_machine)
   \<and> v2_gpt_ic_setup demo_timer 3 1 boot_machine = Inr boot_machine
   \<and> v2_gpt_ic_irq_enable demo_timer 3 boot_machine = Inr boot_machine
   \<and> v2_gpt_ic_irq_disable demo_timer 0 boot_machine = Inr boot_machine
   \<and> v2_gpt_ic_irq_acknowledge demo_timer 3 boot_machine = Inr boot_machine
   \<and> v2_gpt_is_ic_irq demo_timer 0 boot_machine = Inr (False, boot_machine)
   \<and> v2_gpt_ic_setup demo_timer 1 4 boot_machine = Inr boot_machine"
  using invalid_channel_is_silent_noop
      [where chan = 4 and imxtm = demo_timer and v = 7 and s = boot_machine and mode = 1]
    invalid_channel_is_silent_noop
      [where chan = 0 and imxtm = demo_timer and v = 7 and s = boot_machine and mode = 1]
    invalid_channel_is_silent_noop
      [where chan = "0xFFFFFFFF" and imxtm = demo_timer and v = 7 and s = boot_machine
        and mode = 1]
    invalid_channel_is_silent_noop
      [where chan = 3 and imxtm = demo_timer and v = 7 and s = boot_machine and mode = 1]
    invalid_channel_is_silent_noop
      [where chan = 1 and imxtm = demo_timer and v = 7 and s = boot_machine and mode = 4]
  by simp

lemma v2_gpt_oc_irq_acknowledge_low_channels:
  "v2_gpt_oc_irq_acknowledge imxtm 1 s
     = Inr (writel_relaxed V2_SR_OF1 (reg (base imxtm) V2_REG_SR) s)"
  "v2_gpt_oc_irq_acknowledge imxtm 2 s
     = Inr (writel_relaxed V2_SR_OF2 (reg (base imxtm) V2_REG_SR) s)"
  by (simp_all add: v2_gpt_oc_irq_acknowledge_def at_index_def V2_IM_NUM_def)

text \<open>
  C7, at channel 3. \<open>v2_gpt_oc_irq_acknowledge\<close> bounds the channel by \<open>V2_IM_NUM\<close>
  (2), not by \<open>V2_OM_NUM\<close> (3): on output-compare channel 3 it returns with the
  machine unchanged, so nothing is written to the status register. The status query
  \<open>v2_gpt_is_oc_irq\<close> of the same channel does read the status register and tests
  that channel's bit.
\<close>

theorem v2_gpt_oc_irq_acknowledge_rejects_channel_3:
  "v2_gpt_oc_irq_acknowledge imxtm 3 s = Inr s
   \<and> v2_gpt_is_oc_irq imxtm 3 s =
        Inr (mem s (reg (base imxtm) V2_REG_SR) AND V2_SR_OF3 \<noteq> 0,
             s\<lparr>log := log s @ [Read (reg (base imxtm) V2_REG_SR)]\<rparr>)"
  by (simp add: v2_gpt_oc_irq_acknowledge_def v2_gpt_is_oc_irq_def at_index_def
      V2_IM_NUM_def V2_OM_NUM_def io_defs)

subsection \<open>Input-capture mode\<close>

text \<open>
  C8. For channel 1 or 2 and a mode of at most 3, \<open>v2_gpt_ic_setup\<close> returns normally
  and leaves the control register equal to its previous value OR the mode shifted to the
  channel's offset (16 for channel 1, 18 for channel 2); every bit that was set before is
  still set.
\<close>

theorem v2_gpt_ic_setup_ors_mode:
  assumes "chan = 1 \<or> chan = 2" and "mode \<le> 3"
  shows "\<exists>s'. v2_gpt_ic_setup imxtm chan mode s = Inr s'
     \<and> mem s' (reg (base imxtm) V2_REG_CR) =
         mem s (reg (base imxtm) V2_REG_CR) OR push_bit (if chan = 1 then 16 else 18) mode
     \<and> mem s' (reg (base imxtm) V2_REG_CR) AND mem s (reg (base imxtm) V2_REG_CR)
         = mem s (reg (base imxtm) V2_REG_CR)"
  using assms
  by (auto simp: v2_gpt_ic_setup_def io_defs Let_def at_index_def v2_bit_defs word_bw_comms)

theorem v2_gpt_ic_setup_ors_mode_witness:
  "\<exists>s'. v2_gpt_ic_setup demo_timer 2 1 (machine_with 0xffff800010000000 0x80548) = Inr s'
     \<and> mem s' 0xffff800010000000 = 0xC0548"
  using v2_gpt_ic_setup_ors_mode [of 2 1 demo_timer "machine_with 0xffff800010000000 0x80548"]
  by (auto simp add: demo_defs reg_def v2_reg_defs)

subsection \<open>Failing exits of the probe\<close>

text \<open>
  C9, on two failing exits. When no clock can be had, the probe returns the errno of the
  peripheral clock (here -2) and the allocation, the register mapping and the interrupt
  mapping are all still held. When no interrupt line can be mapped, the probe returns
  \<open>-EINVAL\<close> after freeing the allocation, and the register mapping is still held.
\<close>

theorem gpt_probe_failure_keeps_resources:
  "gpt_probe no_clk_env demo_pdev boot_machine =
      Inr (- 2, boot_machine\<lparr>held :=
        [IrqMapping 55, Iomap 0xffff800010000000, Kmem 0xffff000008000000]\<rparr>)
   \<and> gpt_probe no_irq_env demo_pdev boot_machine =
      Inr (- EINVAL, boot_machine\<lparr>held := [Iomap 0xffff800010000000]\<rparr>)"
  by (simp add: gpt_probe_def demo_defs kzalloc_def of_iomap_def irq_of_parse_and_map_def
      of_clk_get_by_name_def Let_def zeroed_imx_timer_def kfree_def acquire_def release_def
      IS_ERR_def PTR_ERR_def)

text \<open>
  When only the \<open>ipg\<close> clock is missing, the value returned is \<open>PTR_ERR\<close> of the
  valid peripheral clock handle: the low 32 bits of a pointer, not an errno.
\<close>

lemma gpt_probe_ipg_missing_returns_pointer_bits:
  "gpt_probe no_ipg_env demo_pdev boot_machine =
      Inr (0x08002000, boot_machine\<lparr>held :=
        [ClkRef 0xffff000008002000, IrqMapping 55, Iomap 0xffff800010000000,
         Kmem 0xffff000008000000]\<rparr>)"
  by (simp add: gpt_probe_def demo_defs kzalloc_def of_iomap_def irq_of_parse_and_map_def
      of_clk_get_by_name_def Let_def zeroed_imx_timer_def kfree_def acquire_def release_def
      IS_ERR_def PTR_ERR_def)

end
